theory Spec2Isabelle
  imports Main
begin

section \<open>Data model (models/User.js, models/Issue.js and the Achievement schema)\<close>

text \<open>
  An ObjectId is a natural number, a date is a number of milliseconds since the epoch.
  A field of a request body is a \<open>string option\<close>: \<open>None\<close> when the key is absent.
  JavaScript's \<open>!x\<close> on such a field holds when the key is absent or the string is empty.
\<close>

type_synonym objectId = nat
type_synonym date = int

definition falsy :: "string option \<Rightarrow> bool" where
  "falsy x = (case x of None \<Rightarrow> True | Some s \<Rightarrow> s = [])"

text \<open>
  JavaScript values: \<open>undefined\<close> and \<open>null\<close> are both
  \<open>JNull\<close>. \<open>truthy\<close> is JavaScript's conversion to a boolean, \<open>field k v\<close> is \<open>v.k\<close>.
\<close>

datatype json =
    JNull
  | JBool bool
  | JNum int
  | JStr string
  | JArr "json list"
  | JObj "(string \<times> json) list"

fun truthy :: "json \<Rightarrow> bool" where
  "truthy JNull = False"
| "truthy (JBool b) = b"
| "truthy (JNum n) = (n \<noteq> 0)"
| "truthy (JStr s) = (s \<noteq> [])"
| "truthy (JArr _) = True"
| "truthy (JObj _) = True"

fun field :: "string \<Rightarrow> json \<Rightarrow> json" where
  "field k (JObj kvs) = (case map_of kvs k of None \<Rightarrow> JNull | Some v \<Rightarrow> v)"
| "field k _ = JNull"

definition js_or :: "json \<Rightarrow> json \<Rightarrow> json" where
  "js_or a b = (if truthy a then a else b)"


text \<open>
  \<open>String(v)\<close>, the conversion \<open>new Error(v)\<close> applies to its message. Numbers are
  integers here; in an array \<open>null\<close> is rendered as the empty string.
\<close>

function nat_digits :: "nat \<Rightarrow> string" where
  "nat_digits n = (if n < 10 then [''0123456789'' ! n]
                   else nat_digits (n div 10) @ [''0123456789'' ! (n mod 10)])"
  by pat_completeness auto
termination
  by (relation "measure id") auto

declare nat_digits.simps [simp del]

fun js_String :: "json \<Rightarrow> string"
  and js_join :: "json list \<Rightarrow> string" where
  "js_String JNull = ''null''"
| "js_String (JBool b) = (if b then ''true'' else ''false'')"
| "js_String (JNum n) = (if n < 0 then CHR ''-'' # nat_digits (nat (- n)) else nat_digits (nat n))"
| "js_String (JStr s) = s"
| "js_String (JArr xs) = js_join xs"
| "js_String (JObj kvs) = ''[object Object]''"
| "js_join [] = []"
| "js_join [x] = (if x = JNull then [] else js_String x)"
| "js_join (x # y # ys) = (if x = JNull then [] else js_String x) @ '','' @ js_join (y # ys)"

text \<open>
  The setters of the User schema's \<open>email\<close> path, \<open>lowercase: true\<close> and \<open>trim: true\<close>:
  mongoose runs them on a value it stores and on a value it casts in a query filter.
  Strings are byte strings: the letters A to Z are lowered and the ASCII white space
  (space, tab, line feed, vertical tab, form feed, carriage return) is trimmed; what
  JavaScript does to letters and spaces beyond ASCII is not modelled.
\<close>

definition lower_char :: "char \<Rightarrow> char" where
  "lower_char c =
     (case map_of (zip ''ABCDEFGHIJKLMNOPQRSTUVWXYZ'' ''abcdefghijklmnopqrstuvwxyz'') c of
        None \<Rightarrow> c | Some l \<Rightarrow> l)"

definition js_toLowerCase :: "string \<Rightarrow> string" where
  "js_toLowerCase s = map lower_char s"

definition white_space :: "char \<Rightarrow> bool" where
  "white_space c = (c \<in> set [CHR '' '', CHR 0x09, CHR 0x0A, CHR 0x0B, CHR 0x0C, CHR 0x0D])"

definition js_trim :: "string \<Rightarrow> string" where
  "js_trim s = rev (dropWhile white_space (rev (dropWhile white_space s)))"

definition email_setters :: "string \<Rightarrow> string" where
  "email_setters e = js_trim (js_toLowerCase e)"

record user =
  u_id :: objectId
  email :: string
  password :: string
  u_name :: "string option"
  phone :: "string option"
  role :: string
  mentees :: "objectId list"
  assignedMentor :: "objectId option"
  profileCompleted :: bool

record comment =
  c_user :: objectId
  c_text :: string
  c_createdAt :: date

text \<open>
  The issue document. The type of its \<open>mentee\<close> field is a parameter: a stored document
  holds an ObjectId, a document returned through \<open>populate({path: 'mentee', select: 'email'})\<close>
  holds the selected fields of the user found, or null.
\<close>

record 'm issue_doc =
  i_id :: objectId
  mentee :: 'm
  mentor :: objectId
  issueType :: string
  description :: string
  status :: string
  comments :: "comment list"
  createdAt :: date
  updatedAt :: date

type_synonym issue = "objectId issue_doc"
type_synonym populated_issue = "(objectId \<times> string) option issue_doc"

record achievement =
  a_id :: objectId
  a_mentee :: objectId
  a_mentor :: objectId
  a_type :: string
  a_position :: string
  a_description :: string
  dateOfAchievement :: date
  isCompleted :: bool

record db =
  users :: "user list"
  issues :: "issue list"
  achievements :: "achievement list"

text \<open>The enum lists of the schemas.\<close>

definition issueType_enum :: "string list" where
  "issueType_enum = [''Academic'', ''Grievances'', ''Ragging'', ''Harassment'', ''Accommodation'', ''Other'']"

definition status_enum :: "string list" where
  "status_enum = [''Open'', ''Under Review'', ''Resolved'', ''Closed'']"

definition achievement_type_enum :: "string list" where
  "achievement_type_enum = [''Sports'', ''Competitive Exam'', ''Internship'', ''Research Publication'',
     ''Award'', ''Cultural Event'', ''Technical Event'', ''Hackathon'', ''Other'']"

definition position_enum :: "string list" where
  "position_enum = [''1st'', ''2nd'', ''3rd'', ''Participation'', ''Winner'', ''Runner-up'',
     ''Completed'', ''Published'', ''N/A'']"

section \<open>Responses\<close>

text \<open>
  \<open>res.status(c).json(b)\<close> is \<open>Response c b\<close>. \<open>Failure m\<close> is the body
  \<open>{success: false, error: m}\<close>; \<open>Thrown\<close> is the body the \<open>catch\<close> block sends,
  \<open>{success: false, error: error.message}\<close>, whose message is made by the library that threw.
  The other bodies are \<open>{success: true, ...}\<close> with the payload shown; \<open>Assigned\<close> is a
  success body with no payload modelled.
\<close>

record login_data =
  l_id :: objectId
  l_email :: string
  l_role :: string
  l_profileCompleted :: bool

datatype body =
    Failure string
  | Thrown
  | Data_issue issue
  | Data_issues nat "issue list"
  | Data_populated_issues nat "populated_issue list"
  | Data_comment comment
  | Data_achievement achievement
  | Data_login string login_data
  | Assigned

datatype response = Response (statusCode: nat) (json: body)

section \<open>Queries of the store\<close>

text \<open>
  \<open>Model.findById(k)\<close> is the first document with that \<open>_id\<close>, \<open>Model.findOne(q)\<close> the
  first document whose stored fields equal those of \<open>q\<close> as cast by the schema (for the
  email: lowered and trimmed), and
  \<open>Model.find(q).sort('-createdAt')\<close> keeps the documents matching \<open>q\<close>, newest first;
  documents created at the same time keep the order of the store (the database leaves
  their order open).
  \<open>doc.save()\<close> writes the modified paths of a loaded document to the stored document with
  its \<open>_id\<close>: for an issue loaded and saved within one handler that is a replacement
  (\<open>save_issue\<close>); where a handler holds two loaded users, each save is the update of the
  paths it modified (\<open>update_user\<close>). The store is a value and its queries do not fail: a
  handler's \<open>catch\<close> is reached only where a validator throws.
\<close>

definition User_findById :: "db \<Rightarrow> objectId \<Rightarrow> user option" where
  "User_findById d k = find (\<lambda>u. u_id u = k) (users d)"

definition User_findOne_email :: "db \<Rightarrow> string \<Rightarrow> user option" where
  "User_findOne_email d e = find (\<lambda>u. email u = email_setters e) (users d)"

definition User_findOne_email_role :: "db \<Rightarrow> string \<Rightarrow> string \<Rightarrow> user option" where
  "User_findOne_email_role d e r = find (\<lambda>u. email u = email_setters e \<and> role u = r) (users d)"

definition Issue_findById :: "db \<Rightarrow> objectId \<Rightarrow> issue option" where
  "Issue_findById d k = find (\<lambda>i. i_id i = k) (issues d)"

fun replace_issue :: "issue \<Rightarrow> issue list \<Rightarrow> issue list" where
  "replace_issue i [] = []"
| "replace_issue i (x # xs) = (if i_id x = i_id i then i # xs else x # replace_issue i xs)"

fun modify_user :: "objectId \<Rightarrow> (user \<Rightarrow> user) \<Rightarrow> user list \<Rightarrow> user list" where
  "modify_user k f [] = []"
| "modify_user k f (x # xs) = (if u_id x = k then f x # xs else x # modify_user k f xs)"

definition save_issue :: "issue \<Rightarrow> db \<Rightarrow> db" where
  "save_issue i d = d\<lparr>issues := replace_issue i (issues d)\<rparr>"

definition update_user :: "objectId \<Rightarrow> (user \<Rightarrow> user) \<Rightarrow> db \<Rightarrow> db" where
  "update_user k f d = d\<lparr>users := modify_user k f (users d)\<rparr>"

definition newest_first :: "'m issue_doc list \<Rightarrow> 'm issue_doc list" where
  "newest_first xs = sort_key (\<lambda>i. - createdAt i) xs"

definition populate_mentee :: "db \<Rightarrow> issue \<Rightarrow> populated_issue" where
  "populate_mentee d i =
     \<lparr>i_id = i_id i,
      mentee = map_option (\<lambda>u. (u_id u, email u)) (User_findById d (mentee i)),
      mentor = mentor i, issueType = issueType i, description = description i,
      status = status i, comments = comments i, createdAt = createdAt i,
      updatedAt = updatedAt i\<rparr>"

section \<open>controllers/menteeController.js\<close>

record comment_input =
  ci_user :: "objectId option"
  ci_text :: "string option"
  ci_createdAt :: "date option"

record issue_body =
  b_mentee :: "objectId option"
  b_mentor :: "objectId option"
  b_issueType :: "string option"
  b_description :: "string option"
  b_status :: "string option"
  b_comments :: "comment_input list option"

text \<open>
  \<open>Issue.create({mentee, mentor, ...req.body})\<close>: the keys of the body come last in the
  object literal, so they override the two the controller sets. The schema's validators
  run on the result: a required string must be non-empty, an enumerated one must be in its
  list. Comments sent in the body are stored, each with its required \<open>user\<close> and \<open>text\<close>
  and a \<open>createdAt\<close> that defaults to the clock. A failed validation throws, and the
  controller's \<open>catch\<close> answers 500. An \<open>_id\<close> or timestamps sent in the body are not
  modelled.
  \<open>new_id\<close> is the ObjectId the driver generates, \<open>now\<close> the clock.
\<close>

definition valid_comment_input :: "comment_input \<Rightarrow> bool" where
  "valid_comment_input c =
     (ci_user c \<noteq> None \<and> (case ci_text c of None \<Rightarrow> False | Some t \<Rightarrow> t \<noteq> []))"

definition comment_of_input :: "date \<Rightarrow> comment_input \<Rightarrow> comment" where
  "comment_of_input now c =
     \<lparr>c_user = (case ci_user c of None \<Rightarrow> 0 | Some u \<Rightarrow> u),
      c_text = (case ci_text c of None \<Rightarrow> [] | Some t \<Rightarrow> t),
      c_createdAt = (case ci_createdAt c of None \<Rightarrow> now | Some t \<Rightarrow> t)\<rparr>"

definition Issue_create :: "objectId \<Rightarrow> date \<Rightarrow> objectId \<Rightarrow> objectId \<Rightarrow> issue_body \<Rightarrow> issue option" where
  "Issue_create new_id now me mr b =
     (case (b_issueType b, b_description b) of
        (Some t, Some ds) \<Rightarrow>
          (if t \<in> set issueType_enum \<and> ds \<noteq> [] \<and>
              (case b_status b of None \<Rightarrow> True | Some s \<Rightarrow> s \<in> set status_enum) \<and>
              (case b_comments b of None \<Rightarrow> True | Some cs \<Rightarrow> list_all valid_comment_input cs)
           then Some \<lparr>i_id = new_id,
                      mentee = (case b_mentee b of None \<Rightarrow> me | Some x \<Rightarrow> x),
                      mentor = (case b_mentor b of None \<Rightarrow> mr | Some x \<Rightarrow> x),
                      issueType = t, description = ds,
                      status = (case b_status b of None \<Rightarrow> ''Open'' | Some s \<Rightarrow> s),
                      comments = (case b_comments b of None \<Rightarrow> []
                                  | Some cs \<Rightarrow> map (comment_of_input now) cs),
                      createdAt = now, updatedAt = now\<rparr>
           else None)
      | _ \<Rightarrow> None)"

definition createIssue :: "objectId \<Rightarrow> date \<Rightarrow> db \<Rightarrow> objectId \<Rightarrow> issue_body \<Rightarrow> db \<times> response" where
  "createIssue new_id now d req_user b =
     (case User_findById d req_user of
        None \<Rightarrow> (d, Response 404 (Failure ''Mentee not found''))
      | Some me \<Rightarrow>
          (case assignedMentor me of
             None \<Rightarrow> (d, Response 400 (Failure ''No assigned mentor found''))
           | Some mr \<Rightarrow>
               (case Issue_create new_id now req_user mr b of
                  None \<Rightarrow> (d, Response 500 Thrown)
                | Some i \<Rightarrow> (d\<lparr>issues := issues d @ [i]\<rparr>, Response 201 (Data_issue i)))))"

definition mentee_getIssues :: "db \<Rightarrow> objectId \<Rightarrow> response" where
  "mentee_getIssues d req_user =
     (let found = newest_first (filter (\<lambda>i. mentee i = req_user) (issues d))
      in Response 200 (Data_issues (length found) found))"

record achievement_body =
  ab_mentee :: "objectId option"
  ab_mentor :: "objectId option"
  ab_type :: "string option"
  ab_position :: "string option"
  ab_description :: "string option"
  ab_dateOfAchievement :: "date option"
  ab_isCompleted :: "bool option"

definition Achievement_create :: "objectId \<Rightarrow> date \<Rightarrow> objectId \<Rightarrow> objectId \<Rightarrow> achievement_body \<Rightarrow> achievement option" where
  "Achievement_create new_id now me mr b =
     (case (ab_type b, ab_description b) of
        (Some t, Some ds) \<Rightarrow>
          (if t \<in> set achievement_type_enum \<and> ds \<noteq> [] \<and>
              (case ab_position b of None \<Rightarrow> True | Some p \<Rightarrow> p \<in> set position_enum)
           then Some \<lparr>a_id = new_id,
                      a_mentee = (case ab_mentee b of None \<Rightarrow> me | Some x \<Rightarrow> x),
                      a_mentor = (case ab_mentor b of None \<Rightarrow> mr | Some x \<Rightarrow> x),
                      a_type = t,
                      a_position = (case ab_position b of None \<Rightarrow> ''N/A'' | Some p \<Rightarrow> p),
                      a_description = ds,
                      dateOfAchievement = (case ab_dateOfAchievement b of None \<Rightarrow> now | Some t' \<Rightarrow> t'),
                      isCompleted = (case ab_isCompleted b of None \<Rightarrow> True | Some c \<Rightarrow> c)\<rparr>
           else None)
      | _ \<Rightarrow> None)"

definition createAchievement :: "objectId \<Rightarrow> date \<Rightarrow> db \<Rightarrow> objectId \<Rightarrow> achievement_body \<Rightarrow> db \<times> response" where
  "createAchievement new_id now d req_user b =
     (case User_findById d req_user of
        None \<Rightarrow> (d, Response 404 (Failure ''Mentee not found''))
      | Some me \<Rightarrow>
          (case assignedMentor me of
             None \<Rightarrow> (d, Response 400 (Failure ''No assigned mentor found''))
           | Some mr \<Rightarrow>
               (case User_findById d mr of
                  None \<Rightarrow> (d, Response 404 (Failure ''Assigned mentor not found''))
                | Some _ \<Rightarrow>
                    (case Achievement_create new_id now (u_id me) mr b of
                       None \<Rightarrow> (d, Response 500 Thrown)
                     | Some a \<Rightarrow>
                         (d\<lparr>achievements := achievements d @ [a]\<rparr>,
                          Response 201 (Data_achievement a))))))"

text \<open>
  The body of a comment request: the mentee's handler reads \<open>text\<close> only, the mentor's
  reads \<open>text\<close> and \<open>status\<close>. \<open>comments.push({user, text})\<close> appends a subdocument whose
  \<open>createdAt\<close> defaults to the clock; \<open>save()\<close> stamps \<open>updatedAt\<close>.
\<close>

record comment_body =
  cb_text :: "string option"
  cb_status :: "string option"

definition mentee_addComment :: "date \<Rightarrow> db \<Rightarrow> objectId \<Rightarrow> objectId \<Rightarrow> comment_body \<Rightarrow> db \<times> response" where
  "mentee_addComment now d req_user issueId b =
     (case cb_text b of
        None \<Rightarrow> (d, Response 400 (Failure ''Comment text is required''))
      | Some txt \<Rightarrow>
          if txt = [] then (d, Response 400 (Failure ''Comment text is required''))
          else
            (case Issue_findById d issueId of
               None \<Rightarrow> (d, Response 404 (Failure ''Issue not found''))
             | Some i \<Rightarrow>
                 if mentee i \<noteq> req_user
                 then (d, Response 403 (Failure ''Not authorized to access this issue''))
                 else
                   (let i' = i\<lparr>comments := comments i @ [\<lparr>c_user = req_user, c_text = txt, c_createdAt = now\<rparr>],
                               updatedAt := now\<rparr>;
                        newComment = last (comments i')
                    in (save_issue i' d, Response 200 (Data_comment newComment)))))"

section \<open>controllers/mentorController.js (unnamed/part_009)\<close>

definition mentor_getIssues :: "db \<Rightarrow> objectId \<Rightarrow> response" where
  "mentor_getIssues d req_user =
     (case User_findById d req_user of
        None \<Rightarrow> Response 404 (Failure ''Mentor not found'')
      | Some _ \<Rightarrow>
          (let found = map (populate_mentee d)
                         (newest_first (filter (\<lambda>i. mentor i = req_user) (issues d)))
           in Response 200 (Data_populated_issues (length found) found)))"

definition mentor_addComment :: "date \<Rightarrow> db \<Rightarrow> objectId \<Rightarrow> objectId \<Rightarrow> comment_body \<Rightarrow> db \<times> response" where
  "mentor_addComment now d req_user issueId b =
     (case cb_text b of
        None \<Rightarrow> (d, Response 400 (Failure ''Comment text is required''))
      | Some txt \<Rightarrow>
          if txt = [] then (d, Response 400 (Failure ''Comment text is required''))
          else
            (case Issue_findById d issueId of
               None \<Rightarrow> (d, Response 404 (Failure ''Issue not found''))
             | Some i \<Rightarrow>
                 if mentor i \<noteq> req_user
                 then (d, Response 403 (Failure ''Not authorized to comment on this issue''))
                 else
                   (let i1 = i\<lparr>comments := comments i @ [\<lparr>c_user = req_user, c_text = txt, c_createdAt = now\<rparr>]\<rparr>;
                        i2 = (case cb_status b of
                                None \<Rightarrow> i1
                              | Some s \<Rightarrow> if s \<noteq> [] \<and> s \<in> set status_enum
                                          then i1\<lparr>status := s\<rparr> else i1);
                        i3 = i2\<lparr>updatedAt := now\<rparr>
                    in (save_issue i3 d, Response 200 (Data_issue i3)))))"

text \<open>
  The email of the body is absent or a string (what mongoose makes of a filter that is
  not a string is not modelled). The handler's \<open>!mentor.mentees\<close> branch is left out: the
  schema defaults the array to \<open>[]\<close>. The response it sends once both users are saved is
  the parameter \<open>ok\<close>.
\<close>

definition assignMentee :: "response \<Rightarrow> db \<Rightarrow> objectId \<Rightarrow> string option \<Rightarrow> db \<times> response" where
  "assignMentee ok d req_user email_field =
     (case email_field of
        None \<Rightarrow> (d, Response 400 (Failure ''Mentee email is required''))
      | Some e \<Rightarrow>
          if e = [] then (d, Response 400 (Failure ''Mentee email is required''))
          else
            (case User_findOne_email_role d e ''mentee'' of
               None \<Rightarrow> (d, Response 404 (Failure ''Mentee not found with this email''))
             | Some me \<Rightarrow>
                 (case assignedMentor me of
                    Some _ \<Rightarrow> (d, Response 400 (Failure ''Mentee is already assigned to a mentor''))
                  | None \<Rightarrow>
                      (case User_findById d req_user of
                         None \<Rightarrow> (d, Response 404 (Failure ''Mentor not found''))
                       | Some mr \<Rightarrow>
                           if u_id me \<in> set (mentees mr)
                           then (d, Response 400 (Failure ''Mentee is already assigned to you''))
                           else
                             (let d1 = update_user (u_id mr) (\<lambda>u. u\<lparr>mentees := mentees u @ [u_id me]\<rparr>) d;
                                  d2 = update_user (u_id me) (\<lambda>u. u\<lparr>assignedMentor := Some (u_id mr)\<rparr>) d1
                              in (d2, ok))))))"

section \<open>controllers/authController.js (unnamed/part_010)\<close>

text \<open>
  The body of a login request: the email is absent or a string (what mongoose makes of
  a filter that is not a string is not modelled), the password is any JavaScript value,
  \<open>JNull\<close> when absent.

  \<open>comparePassword\<close> (models/User.js) is \<open>bcrypt.compare(candidatePassword, this.password)\<close>.
  bcryptjs rejects, with the error 'Illegal arguments', a candidate that is not a string
  (\<open>None\<close>); on two strings it answers whether the hash is the candidate's, which is the
  parameter \<open>bcrypt_compare\<close>. \<open>generateToken\<close> comes from utils/jwtGenerator and is a
  parameter too. A rejected \<open>comparePassword\<close> is an exception inside the handler's
  \<open>try\<close>: the \<open>catch\<close> answers 500 with the error's message.
\<close>

definition comparePassword :: "(string \<Rightarrow> string \<Rightarrow> bool) \<Rightarrow> json \<Rightarrow> string \<Rightarrow> bool option" where
  "comparePassword bcrypt_compare candidatePassword hash =
     (case candidatePassword of
        JStr c \<Rightarrow> Some (bcrypt_compare c hash)
      | _ \<Rightarrow> None)"

definition login :: "(string \<Rightarrow> string \<Rightarrow> bool) \<Rightarrow> (objectId \<Rightarrow> string) \<Rightarrow> db \<Rightarrow> string option \<Rightarrow> json \<Rightarrow> response" where
  "login bcrypt_compare generateToken d email_field password_field =
     (if falsy email_field \<or> \<not> truthy password_field
      then Response 400 (Failure ''Please provide email and password'')
      else
        (case email_field of
           None \<Rightarrow> Response 400 (Failure ''Please provide email and password'')
         | Some e \<Rightarrow>
             (case User_findOne_email d e of
                None \<Rightarrow> Response 401 (Failure ''Invalid credentials'')
              | Some u \<Rightarrow>
                  (case comparePassword bcrypt_compare password_field (password u) of
                     None \<Rightarrow> Response 500 Thrown
                   | Some isMatch \<Rightarrow>
                       if \<not> isMatch
                       then Response 401 (Failure ''Invalid credentials'')
                       else Response 200 (Data_login (generateToken (u_id u))
                              \<lparr>l_id = u_id u, l_email = email u, l_role = role u,
                               l_profileCompleted = profileCompleted u\<rparr>)))))"

section \<open>hooks/useAPIService (unnamed/part_005): the client cache\<close>

text \<open>The state of the hook; its \<open>error\<close> is a message or \<open>null\<close>.\<close>

record APIServiceState =
  data :: json
  isLoading :: bool
  error :: json
  lastUpdated :: "int option"

record APIServiceOptions =
  cacheTime :: int
  showSuccessToast :: bool
  showErrorToast :: bool
  errorMessage :: string
  successMessage :: string

record APIServiceOptions_arg =
  arg_cacheTime :: "int option"
  arg_showSuccessToast :: "bool option"
  arg_showErrorToast :: "bool option"
  arg_errorMessage :: "string option"
  arg_successMessage :: "string option"

definition DEFAULT_OPTIONS :: APIServiceOptions where
  "DEFAULT_OPTIONS =
     \<lparr>cacheTime = 5 * 60 * 1000, showSuccessToast = False, showErrorToast = True,
      errorMessage = ''An error occurred'', successMessage = ''Success''\<rparr>"

text \<open>\<open>{ ...DEFAULT_OPTIONS, ...options }\<close>\<close>

definition mergedOptions :: "APIServiceOptions_arg \<Rightarrow> APIServiceOptions" where
  "mergedOptions a =
     \<lparr>cacheTime = (case arg_cacheTime a of None \<Rightarrow> cacheTime DEFAULT_OPTIONS | Some x \<Rightarrow> x),
      showSuccessToast = (case arg_showSuccessToast a of None \<Rightarrow> showSuccessToast DEFAULT_OPTIONS | Some x \<Rightarrow> x),
      showErrorToast = (case arg_showErrorToast a of None \<Rightarrow> showErrorToast DEFAULT_OPTIONS | Some x \<Rightarrow> x),
      errorMessage = (case arg_errorMessage a of None \<Rightarrow> errorMessage DEFAULT_OPTIONS | Some x \<Rightarrow> x),
      successMessage = (case arg_successMessage a of None \<Rightarrow> successMessage DEFAULT_OPTIONS | Some x \<Rightarrow> x)\<rparr>"

definition no_options :: APIServiceOptions_arg where
  "no_options = \<lparr>arg_cacheTime = None, arg_showSuccessToast = None, arg_showErrorToast = None,
                 arg_errorMessage = None, arg_successMessage = None\<rparr>"

text \<open>The options of the mentor dashboard page (mentor/dashboard/page.tsx).\<close>

definition mentor_dashboard_options :: APIServiceOptions_arg where
  "mentor_dashboard_options =
     \<lparr>arg_cacheTime = Some (30 * 1000), arg_showSuccessToast = None, arg_showErrorToast = Some True,
      arg_errorMessage = Some ''Failed to load dashboard data'', arg_successMessage = None\<rparr>"

definition initial_state :: "json \<Rightarrow> APIServiceState" where
  "initial_state initialData = \<lparr>data = initialData, isLoading = False, error = JNull, lastUpdated = None\<rparr>"

text \<open>
  A thrown value is an instance of \<open>Error\<close> with its message (an error of axios is one)
  or any other value. \<open>apiCall()\<close> either rejects with a thrown value or resolves to a
  response whose \<open>data\<close> is the body; what its interceptors do (services/api.ts) belongs
  to the caller's \<open>apiCall\<close>. \<open>transform\<close> returns a value or throws. The callbacks
  \<open>onSuccess\<close> and \<open>onError\<close> belong to the caller and are left out.
\<close>

datatype thrown = Error_instance string | Thrown_value json

datatype api_outcome = Rejects thrown | Resolves json

datatype toast = Toast_success string | Toast_error json

text \<open>
  \<open>handleError(error, customMessage)\<close> of hooks/useErrorHandler (in hooks/useForm.ts), as
  \<open>useErrorHandler()\<close> sets it up, with its default options: it shows a toast of its own.
  It yields the message and the toasts it showed; its error state and its log line are
  left out.
\<close>

definition handleError :: "thrown \<Rightarrow> string \<Rightarrow> json \<times> toast list" where
  "handleError err customMessage =
     (let message =
            (if customMessage \<noteq> [] then JStr customMessage
             else
               (case err of
                  Thrown_value (JStr s) \<Rightarrow> JStr s
                | Error_instance m \<Rightarrow> JStr m
                | Thrown_value v \<Rightarrow>
                    (let m = field ''message'' (field ''data'' (field ''response'' v))
                     in if truthy m then m else JStr ''An unexpected error occurred'')))
      in (message, [Toast_error message]))"

text \<open>
  A run of \<open>execute\<close> yields the next state, what the promise settles to (\<open>Inr\<close> the value
  returned, \<open>Inl\<close> the value thrown), how often \<open>apiCall\<close> was called, and the toasts
  shown. \<open>now\<close> is the clock at the start of the call, \<open>now'\<close> the clock when the response
  is stored. The model is of one call at a time: the state the callback reads is the
  state the previous call left.
\<close>

record execute_options =
  transform :: "(json \<Rightarrow> thrown + json) option"
  skipCache :: bool

record execute_run =
  state_after :: APIServiceState
  settled :: "thrown + json"
  network_calls :: nat
  toasts :: "toast list"

text \<open>The \<open>catch\<close> block of \<open>execute\<close>.\<close>

definition execute_failed :: "APIServiceOptions \<Rightarrow> APIServiceState \<Rightarrow> thrown \<Rightarrow> execute_run" where
  "execute_failed opts st err =
     (let handled = handleError err (errorMessage opts);
          errorMessage' = fst handled
      in \<lparr>state_after = st\<lparr>isLoading := False, error := errorMessage'\<rparr>,
          settled = Inl err,
          network_calls = 1,
          toasts = snd handled @ (if showErrorToast opts then [Toast_error errorMessage'] else [])\<rparr>)"

definition execute :: "APIServiceOptions \<Rightarrow> APIServiceState \<Rightarrow> int \<Rightarrow> int \<Rightarrow> api_outcome \<Rightarrow> execute_options \<Rightarrow> execute_run" where
  "execute opts st now now' apiCall eo =
     (let isCacheValid =
            (\<not> skipCache eo \<and>
             (case lastUpdated st of None \<Rightarrow> False
              | Some t \<Rightarrow> t \<noteq> 0 \<and> now - t < cacheTime opts))
      in if isCacheValid \<and> truthy (data st)
         then \<lparr>state_after = st, settled = Inr (data st), network_calls = 0, toasts = []\<rparr>
         else
           (let st1 = st\<lparr>isLoading := True, error := JNull\<rparr>
            in case apiCall of
                 Rejects err \<Rightarrow> execute_failed opts st1 err
               | Resolves body \<Rightarrow>
                   if truthy body \<and> field ''success'' body = JBool False
                   then execute_failed opts st1
                          (Error_instance (js_String
                             (js_or (field ''message'' body)
                                (js_or (field ''error'' body) (JStr (errorMessage opts))))))
                   else
                     (case (case transform eo of None \<Rightarrow> Inr body | Some f \<Rightarrow> f body) of
                        Inl err \<Rightarrow> execute_failed opts st1 err
                      | Inr v \<Rightarrow>
                          \<lparr>state_after = st1\<lparr>data := v, isLoading := False, lastUpdated := Some now'\<rparr>,
                           settled = Inr body,
                           network_calls = 1,
                           toasts = (if showSuccessToast opts
                                     then [Toast_success (successMessage opts)] else [])\<rparr>)))"

definition refresh :: "APIServiceOptions \<Rightarrow> APIServiceState \<Rightarrow> int \<Rightarrow> int \<Rightarrow> api_outcome \<Rightarrow> execute_run" where
  "refresh opts st now now' apiCall =
     execute opts st now now' apiCall \<lparr>transform = None, skipCache = True\<rparr>"

section \<open>mentor/issues/components/IssueNotifications.tsx: the notification poller\<close>

definition DAYS_THRESHOLD :: int where
  "DAYS_THRESHOLD = 3"

record fetched_issue =
  f_status :: string
  f_createdAt :: int

text \<open>
  \<open>Math.ceil(Math.abs(now - createdAt) / (1000 * 60 * 60 * 24))\<close>, on millisecond
  timestamps: the ceiling of the quotient, written with integer division.
\<close>

definition diffDays :: "int \<Rightarrow> int \<Rightarrow> int" where
  "diffDays now created = (\<bar>now - created\<bar> + (1000 * 60 * 60 * 24 - 1)) div (1000 * 60 * 60 * 24)"

definition oldPendingIssues :: "int \<Rightarrow> fetched_issue list \<Rightarrow> fetched_issue list" where
  "oldPendingIssues now xs =
     filter (\<lambda>issue.
        if f_status issue \<noteq> ''Open'' \<and> f_status issue \<noteq> ''Under Review'' then False
        else diffDays now (f_createdAt issue) \<ge> DAYS_THRESHOLD) xs"

text \<open>
  \<open>mentorApi.getIssues()\<close> rejects, or resolves to a body with its \<open>success\<close> flag and
  its \<open>data\<close> (absent: \<open>None\<close>, read as the empty list).

  \<open>checkPendingIssues\<close> is a closure of one render of the component: the value of
  \<open>hasShownNotifications\<close> it reads is the value of that render, its first argument here.
  It yields the toasts shown (each the number of old pending issues in its title), whether
  it called \<open>setHasShownNotifications(true)\<close>, and whether it fetched.
\<close>

datatype issues_response = Fetch_rejects | Fetch_resolves bool "fetched_issue list option"

record check_run =
  shown :: "nat list"
  set_hasShown :: bool
  fetched :: bool

definition checkPendingIssues :: "bool \<Rightarrow> issues_response \<Rightarrow> int \<Rightarrow> check_run" where
  "checkPendingIssues hasShownNotifications response now =
     (if hasShownNotifications then \<lparr>shown = [], set_hasShown = False, fetched = False\<rparr>
      else
        (case response of
           Fetch_rejects \<Rightarrow> \<lparr>shown = [], set_hasShown = False, fetched = True\<rparr>
         | Fetch_resolves success payload \<Rightarrow>
             if success then
               (let issues' = (case payload of None \<Rightarrow> [] | Some xs \<Rightarrow> xs);
                    old = oldPendingIssues now issues'
                in if length old > 0
                   then \<lparr>shown = [length old], set_hasShown = True, fetched = True\<rparr>
                   else \<lparr>shown = [], set_hasShown = False, fetched = True\<rparr>)
             else \<lparr>shown = [], set_hasShown = False, fetched = True\<rparr>))"

text \<open>
  The component. \<open>useState(false)\<close> gives the first render \<open>hasShownNotifications = false\<close>.
  The effect has the dependencies \<open>[autoCheck, checkInterval]\<close>, so it runs once, after the
  first render: it calls that render's \<open>checkPendingIssues\<close> and hands the same function to
  \<open>setInterval\<close>. A later \<open>setHasShownNotifications(true)\<close> changes the component's state
  and renders it again, but neither dependency changes, so the interval keeps calling the
  closure of the first render. A session is the list of the responses and clock readings
  of its checks: the check on mount first, then one per tick of the interval.
\<close>

record poller =
  hasShownNotifications :: bool
  notifications :: "nat list"
  fetches :: nat

definition poller_check :: "bool \<Rightarrow> poller \<Rightarrow> issues_response \<times> int \<Rightarrow> poller" where
  "poller_check closure_hasShown p ev =
     (let r = checkPendingIssues closure_hasShown (fst ev) (snd ev)
      in \<lparr>hasShownNotifications = (if set_hasShown r then True else hasShownNotifications p),
          notifications = notifications p @ shown r,
          fetches = fetches p + (if fetched r then 1 else 0)\<rparr>)"

definition IssueNotifications :: "bool \<Rightarrow> (issues_response \<times> int) list \<Rightarrow> poller" where
  "IssueNotifications autoCheck checks =
     (let first_render = \<lparr>hasShownNotifications = False, notifications = [], fetches = 0\<rparr>
      in if autoCheck
         then foldl (poller_check (hasShownNotifications first_render)) first_render checks
         else first_render)"

section \<open>routes/health.js and utils/dbStatus.js\<close>

text \<open>
  What the handler reads: the connection's \<open>readyState\<close>, whether
  \<open>admin().ping()\<close> resolves, and \<open>require('../package.json')\<close>, which yields the version
  or throws (\<open>Inl\<close> the message). Whatever throws inside the handler's \<open>try\<close> reaches its
  \<open>catch\<close>; \<open>getMongoStatus\<close> and \<open>pingDatabase\<close> catch their own exceptions, so the
  \<open>require\<close> is the model's one source of an exception. The timestamp, the environment
  name and the system figures of the body, the host, name and statistics of the
  connection, and the log lines are left out.
\<close>

record health_env =
  readyState :: nat
  ping_resolves :: bool
  package_json :: "string + string"

record mongo_status =
  state :: string
  connected :: bool

definition getMongoStatus :: "health_env \<Rightarrow> mongo_status" where
  "getMongoStatus env =
     \<lparr>state = (if readyState env = 0 then ''disconnected''
               else if readyState env = 1 then ''connected''
               else if readyState env = 2 then ''connecting''
               else if readyState env = 3 then ''disconnecting''
               else ''unknown''),
      connected = (readyState env = 1)\<rparr>"

definition pingDatabase :: "health_env \<Rightarrow> bool" where
  "pingDatabase env = (if readyState env \<noteq> 1 then False else ping_resolves env)"

datatype health_body =
    Health_report (health_status: string) string mongo_status bool
  | Health_error (health_status: string) string

datatype health_response = Health_response (health_code: nat) (health_json: health_body)

definition health :: "health_env \<Rightarrow> health_response" where
  "health env =
     (let dbConnectionStatus = getMongoStatus env;
          dbResponseCheck = pingDatabase env
      in case package_json env of
           Inl message \<Rightarrow> Health_response 500 (Health_error ''down'' message)
         | Inr version \<Rightarrow>
             (let isHealthy = (connected dbConnectionStatus \<and> dbResponseCheck)
              in Health_response 200
                   (Health_report (if isHealthy then ''up'' else ''degraded'') version
                      dbConnectionStatus dbResponseCheck)))"

section \<open>A store and requests to run the handlers on\<close>

definition user0 :: "objectId \<Rightarrow> string \<Rightarrow> string \<Rightarrow> objectId list \<Rightarrow> objectId option \<Rightarrow> user" where
  "user0 k e r ms am =
     \<lparr>u_id = k, email = e, password = ''hash:secret1'', u_name = None, phone = None, role = r,
      mentees = ms, assignedMentor = am, profileCompleted = False\<rparr>"

definition issue0 :: "objectId \<Rightarrow> objectId \<Rightarrow> objectId \<Rightarrow> string \<Rightarrow> comment list \<Rightarrow> date \<Rightarrow> issue" where
  "issue0 k me mr st cs t =
     \<lparr>i_id = k, mentee = me, mentor = mr, issueType = ''Academic'', description = ''late marks'',
      status = st, comments = cs, createdAt = t, updatedAt = t\<rparr>"

text \<open>
  Mentor 1 has mentee 2; mentee 3 has no assigned mentor although mentor 4 lists it, the
  state a half-finished assignment leaves.
\<close>

definition db0 :: db where
  "db0 = \<lparr>users = [user0 1 ''m@x.com'' ''mentor'' [2] None,
                   user0 2 ''a@x.com'' ''mentee'' [] (Some 1),
                   user0 3 ''b@x.com'' ''mentee'' [] None,
                   user0 4 ''n@x.com'' ''mentor'' [3] None],
          issues = [issue0 10 2 1 ''Open'' [] 100,
                    issue0 11 5 4 ''Open'' [] 150,
                    issue0 12 2 1 ''Under Review'' [\<lparr>c_user = 1, c_text = ''please elaborate'', c_createdAt = 210\<rparr>] 200],
          achievements = []\<rparr>"

definition body0 :: "string \<Rightarrow> string option \<Rightarrow> comment_body" where
  "body0 t s = \<lparr>cb_text = Some t, cb_status = s\<rparr>"

text \<open>A stand-in for bcrypt: the stored hash of a password is the password behind a tag.\<close>

definition compare0 :: "string \<Rightarrow> string \<Rightarrow> bool" where
  "compare0 candidate hash = (hash = ''hash:'' @ candidate)"

definition ok0 :: response where
  "ok0 = Response 200 Assigned"

definition token0 :: "objectId \<Rightarrow> string" where
  "token0 k = ''token''"

text \<open>Requests to the cache hook and a cached state.\<close>

definition pick_data :: execute_options where
  "pick_data = \<lparr>transform = Some (\<lambda>r. Inr (field ''data'' r)), skipCache = False\<rparr>"

definition first_fetch :: execute_run where
  "first_fetch = execute (mergedOptions no_options) (initial_state JNull) 1000 1001
                   (Resolves (JObj [(''success'', JBool True)])) pick_data"

definition cached0 :: APIServiceState where
  "cached0 = \<lparr>data = JArr [JNum 7], isLoading = False, error = JNull, lastUpdated = Some 1000\<rparr>"

text \<open>A response body with data.\<close>

definition fresh_body :: json where
  "fresh_body = JObj [(''success'', JBool True), (''data'', JArr [JNum 8, JNum 9])]"

text \<open>The issue list of a mentor with one open issue created at time 0.\<close>

definition pending0 :: issues_response where
  "pending0 = Fetch_resolves True (Some [\<lparr>f_status = ''Open'', f_createdAt = 0\<rparr>])"

section \<open>Facts about the store\<close>

lemma find_replace_issue_same:
  "find (\<lambda>x. i_id x = k) xs = Some i \<Longrightarrow> i_id i' = k \<Longrightarrow>
   find (\<lambda>x. i_id x = k) (replace_issue i' xs) = Some i'"
  by (induction xs) (auto split: if_splits)

lemma find_replace_issue_other:
  "k' \<noteq> i_id i' \<Longrightarrow>
   find (\<lambda>x. i_id x = k') (replace_issue i' xs) = find (\<lambda>x. i_id x = k') xs"
  by (induction xs) auto

lemma Issue_findById_id: "Issue_findById d k = Some i \<Longrightarrow> i_id i = k"
  by (auto simp: Issue_findById_def find_Some_iff)

lemma Issue_findById_save_same:
  "Issue_findById d k = Some i \<Longrightarrow> i_id i' = k \<Longrightarrow> Issue_findById (save_issue i' d) k = Some i'"
  by (simp add: Issue_findById_def save_issue_def find_replace_issue_same)

lemma Issue_findById_save_other:
  "k' \<noteq> i_id i' \<Longrightarrow> Issue_findById (save_issue i' d) k' = Issue_findById d k'"
  by (simp add: Issue_findById_def save_issue_def find_replace_issue_other)


section \<open>The two comment handlers on their success path\<close>

lemma mentee_addComment_ok:
  "cb_text b = Some txt \<Longrightarrow> txt \<noteq> [] \<Longrightarrow> Issue_findById d k = Some i \<Longrightarrow> mentee i = u \<Longrightarrow>
   mentee_addComment now d u k b =
     (save_issue (i\<lparr>comments := comments i @ [\<lparr>c_user = u, c_text = txt, c_createdAt = now\<rparr>],
                     updatedAt := now\<rparr>) d,
      Response 200 (Data_comment \<lparr>c_user = u, c_text = txt, c_createdAt = now\<rparr>))"
  by (simp add: mentee_addComment_def Let_def)

lemma mentee_addComment_200:
  "mentee_addComment now d u k b = (d', Response 200 r) \<Longrightarrow>
   \<exists>txt i. cb_text b = Some txt \<and> txt \<noteq> [] \<and> Issue_findById d k = Some i \<and> mentee i = u"
  by (auto simp: mentee_addComment_def Let_def split: option.splits if_splits)

lemma mentor_addComment_ok:
  "cb_text b = Some txt \<Longrightarrow> txt \<noteq> [] \<Longrightarrow> Issue_findById d k = Some i \<Longrightarrow> mentor i = u \<Longrightarrow>
   mentor_addComment now d u k b =
     (let i3 = i\<lparr>comments := comments i @ [\<lparr>c_user = u, c_text = txt, c_createdAt = now\<rparr>],
                  status := (case cb_status b of None \<Rightarrow> status i
                             | Some s \<Rightarrow> if s \<noteq> [] \<and> s \<in> set status_enum then s else status i),
                  updatedAt := now\<rparr>
      in (save_issue i3 d, Response 200 (Data_issue i3)))"
  by (simp add: mentor_addComment_def Let_def split: option.splits)

lemma mentor_addComment_200:
  "mentor_addComment now d u k b = (d', Response 200 r) \<Longrightarrow>
   \<exists>txt i. cb_text b = Some txt \<and> txt \<noteq> [] \<and> Issue_findById d k = Some i \<and> mentor i = u"
  by (auto simp: mentor_addComment_def Let_def split: option.splits if_splits)


section \<open>Listing issues\<close>

lemma set_newest_first: "set (newest_first xs) = set xs"
  by (simp add: newest_first_def)

text \<open>
  C1. The mentor's listing returns only issues whose \<open>mentor\<close> is the caller, each the
  populated copy of a stored issue whose \<open>mentor\<close> is the caller; the mentee's listing
  returns only stored issues whose \<open>mentee\<close> is the caller.
\<close>

theorem listing_only_own_issues:
  "(mentor_getIssues d caller = Response c (Data_populated_issues n ps) \<longrightarrow>
      (\<forall>p\<in>set ps. mentor p = caller \<and> (\<exists>i\<in>set (issues d). mentor i = caller \<and> p = populate_mentee d i)))
   \<and> (mentee_getIssues d caller = Response c' (Data_issues n' ms) \<longrightarrow>
      (\<forall>i\<in>set ms. mentee i = caller \<and> i \<in> set (issues d)))"
proof (intro conjI impI)
  assume "mentor_getIssues d caller = Response c (Data_populated_issues n ps)"
  then have ps: "ps = map (populate_mentee d) (newest_first (filter (\<lambda>i. mentor i = caller) (issues d)))"
    by (auto simp: mentor_getIssues_def Let_def split: option.splits)
  show "\<forall>p\<in>set ps. mentor p = caller \<and> (\<exists>i\<in>set (issues d). mentor i = caller \<and> p = populate_mentee d i)"
    unfolding ps by (auto simp: set_newest_first populate_mentee_def)
next
  assume "mentee_getIssues d caller = Response c' (Data_issues n' ms)"
  then have ms: "ms = newest_first (filter (\<lambda>i. mentee i = caller) (issues d))"
    by (simp add: mentee_getIssues_def Let_def)
  show "\<forall>i\<in>set ms. mentee i = caller \<and> i \<in> set (issues d)"
    unfolding ms by (simp add: set_newest_first)
qed

lemma mentor_getIssues_db0:
  "mentor_getIssues db0 1 = Response 200 (Data_populated_issues 2
      [populate_mentee db0 (issue0 12 2 1 ''Under Review'' [\<lparr>c_user = 1, c_text = ''please elaborate'', c_createdAt = 210\<rparr>] 200),
       populate_mentee db0 (issue0 10 2 1 ''Open'' [] 100)])"
  by (simp add: mentor_getIssues_def User_findById_def db0_def user0_def issue0_def newest_first_def Let_def)

lemma mentee_getIssues_db0:
  "mentee_getIssues db0 2 = Response 200 (Data_issues 2
      [issue0 12 2 1 ''Under Review'' [\<lparr>c_user = 1, c_text = ''please elaborate'', c_createdAt = 210\<rparr>] 200,
       issue0 10 2 1 ''Open'' [] 100])"
  by (simp add: mentee_getIssues_def db0_def user0_def issue0_def newest_first_def Let_def)

theorem listing_only_own_issues_witness:
  "mentor_getIssues db0 1 = Response 200 (Data_populated_issues 2
      [populate_mentee db0 (issue0 12 2 1 ''Under Review'' [\<lparr>c_user = 1, c_text = ''please elaborate'', c_createdAt = 210\<rparr>] 200),
       populate_mentee db0 (issue0 10 2 1 ''Open'' [] 100)])
   \<and> mentor (populate_mentee db0 (issue0 10 2 1 ''Open'' [] 100)) = 1
   \<and> mentee_getIssues db0 2 = Response 200 (Data_issues 2
      [issue0 12 2 1 ''Under Review'' [\<lparr>c_user = 1, c_text = ''please elaborate'', c_createdAt = 210\<rparr>] 200,
       issue0 10 2 1 ''Open'' [] 100])
   \<and> mentee (issue0 10 2 1 ''Open'' [] 100) = 2"
proof -
  note T = listing_only_own_issues [of db0 1 200 2 _ 200 2 _]
  note T' = listing_only_own_issues [of db0 2 200 2 _ 200 2 _]
  from T mentor_getIssues_db0
  have "mentor (populate_mentee db0 (issue0 10 2 1 ''Open'' [] 100)) = 1" by fastforce
  moreover from T' mentee_getIssues_db0
  have "mentee (issue0 10 2 1 ''Open'' [] 100) = 2" by fastforce
  ultimately show ?thesis using mentor_getIssues_db0 mentee_getIssues_db0 by blast
qed

section \<open>Creating issues and achievements\<close>

text \<open>
  C3. For a mentee with no assigned mentor, \<open>createIssue\<close> and \<open>createAchievement\<close> both
  answer 400 with the error 'No assigned mentor found' and leave the store as it was.
\<close>

theorem unassigned_mentee_cannot_create:
  assumes "User_findById d req_user = Some me" and "assignedMentor me = None"
  shows "createIssue new_id now d req_user b = (d, Response 400 (Failure ''No assigned mentor found''))
       \<and> createAchievement new_id' now' d req_user ab = (d, Response 400 (Failure ''No assigned mentor found''))"
  using assms by (simp add: createIssue_def createAchievement_def)

theorem unassigned_mentee_cannot_create_witness:
  "User_findById db0 3 = Some (user0 3 ''b@x.com'' ''mentee'' [] None)
   \<and> createIssue 13 300 db0 3 \<lparr>b_mentee = None, b_mentor = None, b_issueType = Some ''Academic'',
        b_description = Some ''help'', b_status = None, b_comments = None\<rparr> = (db0, Response 400 (Failure ''No assigned mentor found''))
   \<and> createAchievement 20 300 db0 3 \<lparr>ab_mentee = None, ab_mentor = None, ab_type = Some ''Sports'',
        ab_position = None, ab_description = Some ''won'', ab_dateOfAchievement = None,
        ab_isCompleted = None\<rparr> = (db0, Response 400 (Failure ''No assigned mentor found''))"
proof -
  have f: "User_findById db0 3 = Some (user0 3 ''b@x.com'' ''mentee'' [] None)"
    by (simp add: User_findById_def db0_def user0_def)
  have a: "assignedMentor (user0 3 ''b@x.com'' ''mentee'' [] None) = None"
    by (simp add: user0_def)
  show ?thesis using unassigned_mentee_cannot_create [OF f a] f by simp
qed


text \<open>With an assigned mentor the issue is stored: its mentor is the mentee's, it is Open and has no comments.\<close>

lemma createIssue_assigned_db0:
  "createIssue 13 300 db0 2 \<lparr>b_mentee = None, b_mentor = None, b_issueType = Some ''Academic'',
        b_description = Some ''help'', b_status = None, b_comments = None\<rparr>
     = (db0\<lparr>issues := issues db0 @
               [\<lparr>i_id = 13, mentee = 2, mentor = 1, issueType = ''Academic'', description = ''help'',
                 status = ''Open'', comments = [], createdAt = 300, updatedAt = 300\<rparr>]\<rparr>,
        Response 201 (Data_issue
               \<lparr>i_id = 13, mentee = 2, mentor = 1, issueType = ''Academic'', description = ''help'',
                 status = ''Open'', comments = [], createdAt = 300, updatedAt = 300\<rparr>))"
  by (simp add: createIssue_def User_findById_def db0_def user0_def Issue_create_def issueType_enum_def)

section \<open>Comments\<close>

lemma Issue_findById_db0_10: "Issue_findById db0 10 = Some (issue0 10 2 1 ''Open'' [] 100)"
  by (simp add: Issue_findById_def db0_def issue0_def)

lemma Issue_findById_db0_12:
  "Issue_findById db0 12 = Some (issue0 12 2 1 ''Under Review''
      [\<lparr>c_user = 1, c_text = ''please elaborate'', c_createdAt = 210\<rparr>] 200)"
  by (simp add: Issue_findById_def db0_def issue0_def)

text \<open>
  C4. After a successful comment request (answer 200) on either side, the issue's stored
  comment list is the prior list with the one new comment appended at the end, and no
  other issue has changed.
\<close>

theorem addComment_append_only:
  assumes "mentee_addComment now d u k b = (d', Response 200 r)
         \<or> mentor_addComment now d u k b = (d', Response 200 r)"
  shows "\<exists>i i' txt. Issue_findById d k = Some i \<and> Issue_findById d' k = Some i'
           \<and> cb_text b = Some txt
           \<and> comments i' = comments i @ [\<lparr>c_user = u, c_text = txt, c_createdAt = now\<rparr>]
           \<and> (\<forall>k'. k' \<noteq> k \<longrightarrow> Issue_findById d' k' = Issue_findById d k')"
  using assms
proof
  assume s: "mentee_addComment now d u k b = (d', Response 200 r)"
  from mentee_addComment_200 [OF s] obtain tx i where
    h: "cb_text b = Some tx" "tx \<noteq> []" "Issue_findById d k = Some i" "mentee i = u" by blast
  let ?i = "i\<lparr>comments := comments i @ [\<lparr>c_user = u, c_text = tx, c_createdAt = now\<rparr>], updatedAt := now\<rparr>"
  from s mentee_addComment_ok [OF h, of now] have d': "d' = save_issue ?i d" by simp
  have idk: "i_id ?i = k" using Issue_findById_id [OF h(3)] by simp
  have "Issue_findById d' k = Some ?i"
    unfolding d' by (rule Issue_findById_save_same [OF h(3) idk])
  moreover have "\<forall>k'. k' \<noteq> k \<longrightarrow> Issue_findById d' k' = Issue_findById d k'"
    unfolding d' using idk by (simp add: Issue_findById_save_other)
  ultimately show ?thesis using h by auto
next
  assume s: "mentor_addComment now d u k b = (d', Response 200 r)"
  from mentor_addComment_200 [OF s] obtain tx i where
    h: "cb_text b = Some tx" "tx \<noteq> []" "Issue_findById d k = Some i" "mentor i = u" by blast
  let ?i = "i\<lparr>comments := comments i @ [\<lparr>c_user = u, c_text = tx, c_createdAt = now\<rparr>],
                status := (case cb_status b of None \<Rightarrow> status i
                           | Some s \<Rightarrow> if s \<noteq> [] \<and> s \<in> set status_enum then s else status i),
                updatedAt := now\<rparr>"
  from s mentor_addComment_ok [OF h, of now] have d': "d' = save_issue ?i d" by (simp add: Let_def)
  have idk: "i_id ?i = k" using Issue_findById_id [OF h(3)] by simp
  have "Issue_findById d' k = Some ?i"
    unfolding d' by (rule Issue_findById_save_same [OF h(3) idk])
  moreover have "\<forall>k'. k' \<noteq> k \<longrightarrow> Issue_findById d' k' = Issue_findById d k'"
    unfolding d' using idk by (simp add: Issue_findById_save_other)
  ultimately show ?thesis using h by auto
qed


theorem addComment_append_only_witness:
  "mentee_addComment 300 db0 2 12 (body0 ''here are details'' None)
     = (save_issue ((issue0 12 2 1 ''Under Review'' [\<lparr>c_user = 1, c_text = ''please elaborate'', c_createdAt = 210\<rparr>] 200)
          \<lparr>comments := [\<lparr>c_user = 1, c_text = ''please elaborate'', c_createdAt = 210\<rparr>,
                        \<lparr>c_user = 2, c_text = ''here are details'', c_createdAt = 300\<rparr>],
           updatedAt := 300\<rparr>) db0,
        Response 200 (Data_comment \<lparr>c_user = 2, c_text = ''here are details'', c_createdAt = 300\<rparr>))
   \<and> (\<exists>i'. Issue_findById (fst (mentee_addComment 300 db0 2 12 (body0 ''here are details'' None))) 12 = Some i'
          \<and> comments i' = [\<lparr>c_user = 1, c_text = ''please elaborate'', c_createdAt = 210\<rparr>,
                            \<lparr>c_user = 2, c_text = ''here are details'', c_createdAt = 300\<rparr>])"
proof -
  let ?i = "issue0 12 2 1 ''Under Review'' [\<lparr>c_user = 1, c_text = ''please elaborate'', c_createdAt = 210\<rparr>] 200"
  have t: "cb_text (body0 ''here are details'' None) = Some ''here are details''"
    by (simp add: body0_def)
  have run: "mentee_addComment 300 db0 2 12 (body0 ''here are details'' None)
     = (save_issue (?i\<lparr>comments := comments ?i @ [\<lparr>c_user = 2, c_text = ''here are details'', c_createdAt = 300\<rparr>],
           updatedAt := 300\<rparr>) db0,
        Response 200 (Data_comment \<lparr>c_user = 2, c_text = ''here are details'', c_createdAt = 300\<rparr>))"
    by (rule mentee_addComment_ok [OF t _ Issue_findById_db0_12]) (simp_all add: issue0_def)
  have c: "comments ?i = [\<lparr>c_user = 1, c_text = ''please elaborate'', c_createdAt = 210\<rparr>]"
    by (simp add: issue0_def)
  from addComment_append_only [OF disjI1, OF run]
  obtain i i' tx where w: "Issue_findById db0 12 = Some i"
      "Issue_findById (save_issue (?i\<lparr>comments := comments ?i @ [\<lparr>c_user = 2, c_text = ''here are details'', c_createdAt = 300\<rparr>],
           updatedAt := 300\<rparr>) db0) 12 = Some i'"
      "cb_text (body0 ''here are details'' None) = Some tx"
      "comments i' = comments i @ [\<lparr>c_user = 2, c_text = tx, c_createdAt = 300\<rparr>]"
    by blast
  from w(1) Issue_findById_db0_12 have "i = ?i" by simp
  moreover from w(3) t have "tx = ''here are details''" by simp
  ultimately have "comments i' = [\<lparr>c_user = 1, c_text = ''please elaborate'', c_createdAt = 210\<rparr>,
                            \<lparr>c_user = 2, c_text = ''here are details'', c_createdAt = 300\<rparr>]"
    using w(4) c by simp
  with w(2) run c show ?thesis by simp
qed

text \<open>
  C10. A successful call of the mentee's comment handler leaves the issue's status as it
  was, whatever the body's \<open>status\<close> holds: the stored issue differs from the prior one in
  its comment list and \<open>updatedAt\<close> only, users, achievements and the other issues are
  unchanged, and the response's data is the appended comment alone.
\<close>

theorem mentee_addComment_frame:
  assumes "mentee_addComment now d u k b = (d', Response 200 r)"
  shows "\<exists>i c. Issue_findById d k = Some i
           \<and> Issue_findById d' k = Some (i\<lparr>comments := comments i @ [c], updatedAt := now\<rparr>)
           \<and> status (the (Issue_findById d' k)) = status i
           \<and> r = Data_comment c
           \<and> c_user c = u \<and> cb_text b = Some (c_text c) \<and> c_createdAt c = now
           \<and> users d' = users d \<and> achievements d' = achievements d
           \<and> (\<forall>k'. k' \<noteq> k \<longrightarrow> Issue_findById d' k' = Issue_findById d k')"
proof -
  from mentee_addComment_200 [OF assms] obtain tx i where
    h: "cb_text b = Some tx" "tx \<noteq> []" "Issue_findById d k = Some i" "mentee i = u" by blast
  let ?c = "\<lparr>c_user = u, c_text = tx, c_createdAt = now\<rparr>"
  let ?i = "i\<lparr>comments := comments i @ [?c], updatedAt := now\<rparr>"
  from assms mentee_addComment_ok [OF h, of now]
  have d': "d' = save_issue ?i d" and r: "r = Data_comment ?c" by simp_all
  have idk: "i_id ?i = k" using Issue_findById_id [OF h(3)] by simp
  have f: "Issue_findById d' k = Some ?i"
    unfolding d' by (rule Issue_findById_save_same [OF h(3) idk])
  have o: "\<forall>k'. k' \<noteq> k \<longrightarrow> Issue_findById d' k' = Issue_findById d k'"
    unfolding d' using idk by (simp add: Issue_findById_save_other)
  have u: "users d' = users d \<and> achievements d' = achievements d"
    unfolding d' by (simp add: save_issue_def)
  from f have st: "status (the (Issue_findById d' k)) = status i" by simp
  have c: "c_user ?c = u \<and> cb_text b = Some (c_text ?c) \<and> c_createdAt ?c = now"
    using h(1) by simp
  show ?thesis using h(3) f st r c u o by blast
qed

theorem mentee_addComment_frame_witness:
  "snd (mentee_addComment 300 db0 2 10 (body0 ''done'' (Some ''Resolved'')))
      = Response 200 (Data_comment \<lparr>c_user = 2, c_text = ''done'', c_createdAt = 300\<rparr>)
   \<and> (\<exists>i c. Issue_findById db0 10 = Some i \<and> status i = ''Open''
         \<and> status (the (Issue_findById (fst (mentee_addComment 300 db0 2 10 (body0 ''done'' (Some ''Resolved'')))) 10)) = status i
         \<and> snd (mentee_addComment 300 db0 2 10 (body0 ''done'' (Some ''Resolved''))) = Response 200 (Data_comment c))"
proof -
  let ?i = "issue0 10 2 1 ''Open'' [] 100"
  let ?b = "body0 ''done'' (Some ''Resolved'')"
  have t: "cb_text ?b = Some ''done''" by (simp add: body0_def)
  have run: "mentee_addComment 300 db0 2 10 ?b
     = (fst (mentee_addComment 300 db0 2 10 ?b),
        Response 200 (Data_comment \<lparr>c_user = 2, c_text = ''done'', c_createdAt = 300\<rparr>))"
    by (subst (1 2) mentee_addComment_ok [OF t _ Issue_findById_db0_10]) (simp_all add: issue0_def)
  from mentee_addComment_frame [OF run]
  obtain i c where w: "Issue_findById db0 10 = Some i"
     "status (the (Issue_findById (fst (mentee_addComment 300 db0 2 10 ?b)) 10)) = status i"
     "Data_comment \<lparr>c_user = 2, c_text = ''done'', c_createdAt = 300\<rparr> = Data_comment c"
    by blast
  from w(1) Issue_findById_db0_10 have "i = ?i" by simp
  then have "status i = ''Open''" by (simp add: issue0_def)
  moreover have "snd (mentee_addComment 300 db0 2 10 ?b)
      = Response 200 (Data_comment \<lparr>c_user = 2, c_text = ''done'', c_createdAt = 300\<rparr>)"
    by (subst run) simp
  ultimately show ?thesis using w by auto
qed


text \<open>
  C2, as stated, fails on the mentee's handler: with an authorized caller, a non-empty
  text and the valid status 'Resolved' in the body, the answer carries the new comment, not
  the issue, and the stored status stays 'Open'.
\<close>

theorem addComment_mentee_keeps_status_counterexample:
  "cb_text (body0 ''done'' (Some ''Resolved'')) = Some ''done''
   \<and> cb_status (body0 ''done'' (Some ''Resolved'')) = Some ''Resolved''
   \<and> ''Resolved'' \<in> set status_enum
   \<and> map_option mentee (Issue_findById db0 10) = Some 2
   \<and> snd (mentee_addComment 300 db0 2 10 (body0 ''done'' (Some ''Resolved'')))
        = Response 200 (Data_comment \<lparr>c_user = 2, c_text = ''done'', c_createdAt = 300\<rparr>)
   \<and> json (snd (mentee_addComment 300 db0 2 10 (body0 ''done'' (Some ''Resolved''))))
        \<noteq> Data_issue ((issue0 10 2 1 ''Open'' [] 100)
              \<lparr>comments := [\<lparr>c_user = 2, c_text = ''done'', c_createdAt = 300\<rparr>],
               status := ''Resolved'', updatedAt := 300\<rparr>)
   \<and> map_option status (Issue_findById (fst (mentee_addComment 300 db0 2 10 (body0 ''done'' (Some ''Resolved'')))) 10)
        = Some ''Open''"
proof -
  let ?b = "body0 ''done'' (Some ''Resolved'')"
  let ?i = "issue0 10 2 1 ''Open'' [] 100"
  have t: "cb_text ?b = Some ''done''" by (simp add: body0_def)
  have run: "mentee_addComment 300 db0 2 10 ?b
     = (save_issue (?i\<lparr>comments := comments ?i @ [\<lparr>c_user = 2, c_text = ''done'', c_createdAt = 300\<rparr>],
                      updatedAt := 300\<rparr>) db0,
        Response 200 (Data_comment \<lparr>c_user = 2, c_text = ''done'', c_createdAt = 300\<rparr>))"
    by (rule mentee_addComment_ok [OF t _ Issue_findById_db0_10]) (simp_all add: issue0_def)
  have f: "Issue_findById (fst (mentee_addComment 300 db0 2 10 ?b)) 10
     = Some (?i\<lparr>comments := comments ?i @ [\<lparr>c_user = 2, c_text = ''done'', c_createdAt = 300\<rparr>],
                      updatedAt := 300\<rparr>)"
    unfolding run fst_conv
    by (rule Issue_findById_save_same [OF Issue_findById_db0_10]) (simp add: issue0_def)
  show ?thesis
    unfolding f unfolding run
    by (simp add: body0_def status_enum_def Issue_findById_db0_10 issue0_def)
qed

text \<open>
  C2, amended. Both handlers answer 400 'Comment text is required' for an absent or empty
  text and change nothing. For an authorized caller and a non-empty text, the mentor's
  handler appends the comment (author the caller, the text, the clock), sets the status
  to the body's \<open>status\<close> when that is one of the four enum values, whatever the current
  status, and returns the updated issue, the new comment last; the mentee's handler appends
  the comment, returns the new comment alone and leaves the status as it was.
\<close>

theorem addComment_contract:
  "(falsy (cb_text b) \<longrightarrow>
      mentee_addComment now d u k b = (d, Response 400 (Failure ''Comment text is required''))
    \<and> mentor_addComment now d u k b = (d, Response 400 (Failure ''Comment text is required'')))
   \<and> (cb_text b = Some t \<and> t \<noteq> [] \<and> Issue_findById d k = Some i \<and> mentor i = u \<longrightarrow>
        (\<exists>i'. mentor_addComment now d u k b = (save_issue i' d, Response 200 (Data_issue i'))
           \<and> Issue_findById (save_issue i' d) k = Some i'
           \<and> comments i' = comments i @ [\<lparr>c_user = u, c_text = t, c_createdAt = now\<rparr>]
           \<and> last (comments i') = \<lparr>c_user = u, c_text = t, c_createdAt = now\<rparr>
           \<and> status i' = (case cb_status b of None \<Rightarrow> status i
                          | Some s \<Rightarrow> if s \<in> set status_enum then s else status i)))
   \<and> (cb_text b = Some t \<and> t \<noteq> [] \<and> Issue_findById d k = Some i \<and> mentee i = u \<longrightarrow>
        (\<exists>i'. mentee_addComment now d u k b
                 = (save_issue i' d, Response 200 (Data_comment \<lparr>c_user = u, c_text = t, c_createdAt = now\<rparr>))
           \<and> Issue_findById (save_issue i' d) k = Some i'
           \<and> comments i' = comments i @ [\<lparr>c_user = u, c_text = t, c_createdAt = now\<rparr>]
           \<and> status i' = status i))"
proof (intro conjI impI)
  assume "falsy (cb_text b)"
  then show "mentee_addComment now d u k b = (d, Response 400 (Failure ''Comment text is required''))"
    by (simp add: falsy_def mentee_addComment_def split: option.splits)
next
  assume "falsy (cb_text b)"
  then show "mentor_addComment now d u k b = (d, Response 400 (Failure ''Comment text is required''))"
    by (simp add: falsy_def mentor_addComment_def split: option.splits)
next
  assume a: "cb_text b = Some t \<and> t \<noteq> [] \<and> Issue_findById d k = Some i \<and> mentor i = u"
  let ?c = "\<lparr>c_user = u, c_text = t, c_createdAt = now\<rparr>"
  let ?i = "i\<lparr>comments := comments i @ [?c],
                status := (case cb_status b of None \<Rightarrow> status i
                           | Some s \<Rightarrow> if s \<noteq> [] \<and> s \<in> set status_enum then s else status i),
                updatedAt := now\<rparr>"
  from a have h: "cb_text b = Some t" "t \<noteq> []" "Issue_findById d k = Some i" "mentor i = u" by simp_all
  have run: "mentor_addComment now d u k b = (save_issue ?i d, Response 200 (Data_issue ?i))"
    using mentor_addComment_ok [OF h, of now] by (simp add: Let_def)
  have idk: "i_id ?i = k" using Issue_findById_id [OF h(3)] by simp
  have f: "Issue_findById (save_issue ?i d) k = Some ?i"
    by (rule Issue_findById_save_same [OF h(3) idk])
  have st: "status ?i = (case cb_status b of None \<Rightarrow> status i
                          | Some s \<Rightarrow> if s \<in> set status_enum then s else status i)"
    by (auto simp: status_enum_def split: option.splits)
  have cm: "comments ?i = comments i @ [?c]" "last (comments ?i) = ?c" by simp_all
  show "\<exists>i'. mentor_addComment now d u k b = (save_issue i' d, Response 200 (Data_issue i'))
           \<and> Issue_findById (save_issue i' d) k = Some i'
           \<and> comments i' = comments i @ [?c]
           \<and> last (comments i') = ?c
           \<and> status i' = (case cb_status b of None \<Rightarrow> status i
                          | Some s \<Rightarrow> if s \<in> set status_enum then s else status i)"
    using run f cm st by blast
next
  assume a: "cb_text b = Some t \<and> t \<noteq> [] \<and> Issue_findById d k = Some i \<and> mentee i = u"
  let ?c = "\<lparr>c_user = u, c_text = t, c_createdAt = now\<rparr>"
  let ?i = "i\<lparr>comments := comments i @ [?c], updatedAt := now\<rparr>"
  from a have h: "cb_text b = Some t" "t \<noteq> []" "Issue_findById d k = Some i" "mentee i = u" by simp_all
  have run: "mentee_addComment now d u k b = (save_issue ?i d, Response 200 (Data_comment ?c))"
    using mentee_addComment_ok [OF h, of now] by simp
  have idk: "i_id ?i = k" using Issue_findById_id [OF h(3)] by simp
  have f: "Issue_findById (save_issue ?i d) k = Some ?i"
    by (rule Issue_findById_save_same [OF h(3) idk])
  have cm: "comments ?i = comments i @ [?c]" "status ?i = status i" by simp_all
  show "\<exists>i'. mentee_addComment now d u k b = (save_issue i' d, Response 200 (Data_comment ?c))
           \<and> Issue_findById (save_issue i' d) k = Some i'
           \<and> comments i' = comments i @ [?c]
           \<and> status i' = status i"
    using run f cm by blast
qed

theorem addComment_contract_witness:
  "\<exists>i'. mentor_addComment 300 db0 1 10 (body0 ''please elaborate'' (Some ''Under Review''))
           = (save_issue i' db0, Response 200 (Data_issue i'))
      \<and> comments i' = [\<lparr>c_user = 1, c_text = ''please elaborate'', c_createdAt = 300\<rparr>]
      \<and> status i' = ''Under Review''"
proof -
  let ?b = "body0 ''please elaborate'' (Some ''Under Review'')"
  let ?i = "issue0 10 2 1 ''Open'' [] 100"
  have h: "cb_text ?b = Some ''please elaborate'' \<and> ''please elaborate'' \<noteq> []
           \<and> Issue_findById db0 10 = Some ?i \<and> mentor ?i = 1"
    by (simp add: body0_def Issue_findById_db0_10) (simp add: issue0_def)
  from addComment_contract [of ?b 300 db0 1 10 "''please elaborate''" ?i,
        THEN conjunct2, THEN conjunct1, THEN mp, OF h]
  obtain i' where w: "mentor_addComment 300 db0 1 10 ?b = (save_issue i' db0, Response 200 (Data_issue i'))"
    "comments i' = comments ?i @ [\<lparr>c_user = 1, c_text = ''please elaborate'', c_createdAt = 300\<rparr>]"
    "status i' = (case cb_status ?b of None \<Rightarrow> status ?i
                          | Some s \<Rightarrow> if s \<in> set status_enum then s else status ?i)"
    by blast
  from w(2) have "comments i' = [\<lparr>c_user = 1, c_text = ''please elaborate'', c_createdAt = 300\<rparr>]"
    by (simp add: issue0_def)
  moreover from w(3) have "status i' = ''Under Review''"
    by (simp add: body0_def status_enum_def)
  ultimately show ?thesis using w(1) by blast
qed

section \<open>Assigning a mentee\<close>

lemma email_setters_fixtures:
  "email_setters ''a@x.com'' = ''a@x.com''"
  "email_setters ''A@X.COM'' = ''a@x.com''"
  "email_setters '' b@x.com '' = ''b@x.com''"
  "email_setters ''B@X.COM'' = ''b@x.com''"
  "email_setters ''zz@x.com'' = ''zz@x.com''"
  "email_setters '' ZZ@x.com'' = ''zz@x.com''"
  "email_setters [] = []"
  by (simp_all add: email_setters_def js_trim_def js_toLowerCase_def lower_char_def white_space_def)






lemma findOne_db0_B: "User_findOne_email_role db0 ''B@X.COM'' ''mentee'' = Some (user0 3 ''b@x.com'' ''mentee'' [] None)"
  by (simp add: User_findOne_email_role_def email_setters_fixtures db0_def user0_def)


lemma findById_db0_1: "User_findById db0 1 = Some (user0 1 ''m@x.com'' ''mentor'' [2] None)"
  by (simp add: User_findById_def db0_def user0_def)


text \<open>The success path: the email is found whatever its case, and both users are saved.\<close>

lemma assignMentee_success_db0:
  "snd (assignMentee ok0 db0 1 (Some ''B@X.COM'')) = ok0
   \<and> map_option mentees (User_findById (fst (assignMentee ok0 db0 1 (Some ''B@X.COM''))) 1) = Some [2, 3]
   \<and> map_option assignedMentor (User_findById (fst (assignMentee ok0 db0 1 (Some ''B@X.COM''))) 3) = Some (Some 1)"
  by (simp add: assignMentee_def findOne_db0_B findById_db0_1 Let_def)
     (simp add: user0_def update_user_def User_findById_def db0_def)



section \<open>Login\<close>

lemma findOne_email_db0_a: "User_findOne_email db0 ''a@x.com'' = Some (user0 2 ''a@x.com'' ''mentee'' [] (Some 1))"
  by (simp add: User_findOne_email_def email_setters_fixtures db0_def user0_def)

lemma findOne_email_db0_none: "User_findOne_email db0 ''zz@x.com'' = None"
  by (simp add: User_findOne_email_def email_setters_fixtures db0_def user0_def)

text \<open>
  With a non-empty email and a non-empty string as the password, an existing email with a
  password that does not match and an email no user has (once lowered and trimmed) get the
  same answer, 401 'Invalid credentials'; and a request whose email or password is absent
  or falsy gets 400, whatever the store holds.
\<close>

lemma login_invalid_credentials_strings:
  "(e1 \<noteq> [] \<and> p1 \<noteq> [] \<and> e2 \<noteq> [] \<and> p2 \<noteq> []
      \<and> User_findOne_email d e1 = Some u \<and> \<not> bcrypt_compare p1 (password u)
      \<and> (\<forall>x\<in>set (users d). email x \<noteq> email_setters e2) \<longrightarrow>
      login bcrypt_compare generateToken d (Some e1) (JStr p1) = Response 401 (Failure ''Invalid credentials'')
    \<and> login bcrypt_compare generateToken d (Some e2) (JStr p2) = Response 401 (Failure ''Invalid credentials''))
   \<and> (falsy email_field \<or> \<not> truthy password_field \<longrightarrow>
      login bcrypt_compare generateToken d email_field password_field
        = Response 400 (Failure ''Please provide email and password''))"
proof (intro conjI impI)
  assume a: "e1 \<noteq> [] \<and> p1 \<noteq> [] \<and> e2 \<noteq> [] \<and> p2 \<noteq> []
      \<and> User_findOne_email d e1 = Some u \<and> \<not> bcrypt_compare p1 (password u)
      \<and> (\<forall>x\<in>set (users d). email x \<noteq> email_setters e2)"
  then show "login bcrypt_compare generateToken d (Some e1) (JStr p1) = Response 401 (Failure ''Invalid credentials'')"
    by (simp add: login_def falsy_def comparePassword_def)
  from a have "User_findOne_email d e2 = None"
    by (auto simp: User_findOne_email_def find_None_iff)
  with a show "login bcrypt_compare generateToken d (Some e2) (JStr p2) = Response 401 (Failure ''Invalid credentials'')"
    by (simp add: login_def falsy_def)
next
  assume "falsy email_field \<or> \<not> truthy password_field"
  then show "login bcrypt_compare generateToken d email_field password_field
        = Response 400 (Failure ''Please provide email and password'')"
    by (auto simp: login_def)
qed

lemma login_db0:
  "login compare0 token0 db0 (Some ''A@X.COM'') (JStr ''secret1'')
     = Response 200 (Data_login ''token'' \<lparr>l_id = 2, l_email = ''a@x.com'', l_role = ''mentee'', l_profileCompleted = False\<rparr>)"
  "login compare0 token0 db0 (Some ''a@x.com'') (JStr ''wrong'') = Response 401 (Failure ''Invalid credentials'')"
  "login compare0 token0 db0 (Some ''zz@x.com'') (JStr ''wrong'') = Response 401 (Failure ''Invalid credentials'')"
  by (simp_all add: login_def falsy_def User_findOne_email_def email_setters_fixtures db0_def user0_def
        comparePassword_def compare0_def token0_def)

text \<open>
  C6 on the code: the same request body, with the number 123456 as its password, sent for
  the email of a user and for an email no user has. The first reaches \<open>bcrypt.compare\<close>,
  which rejects a candidate that is not a string, and is answered 500 with the error's
  message; the second is answered 401 'Invalid credentials'.
\<close>

theorem login_non_string_password_tells_users_apart:
  "User_findOne_email db0 ''a@x.com'' = Some (user0 2 ''a@x.com'' ''mentee'' [] (Some 1))
   \<and> User_findOne_email db0 ''zz@x.com'' = None
   \<and> login compare0 token0 db0 (Some ''a@x.com'') (JNum 123456) = Response 500 Thrown
   \<and> login compare0 token0 db0 (Some ''zz@x.com'') (JNum 123456) = Response 401 (Failure ''Invalid credentials'')"
  by (simp add: login_def falsy_def findOne_email_db0_a findOne_email_db0_none comparePassword_def)


section \<open>The client cache\<close>

text \<open>
  C7, as stated, fails when the stored data is falsy: a first fetch whose transform
  yields null stores null and the time; a second fetch inside the cache window, with no
  forced refresh, calls the network again.
\<close>

theorem execute_refetches_counterexample:
  "\<not> skipCache pick_data
   \<and> lastUpdated (state_after first_fetch) = Some 1001
   \<and> 2000 - 1001 < cacheTime (mergedOptions no_options)
   \<and> network_calls (execute (mergedOptions no_options) (state_after first_fetch) 2000 2001
         (Resolves (JObj [(''success'', JBool True)])) pick_data) = 1"
  by (simp add: first_fetch_def execute_def pick_data_def mergedOptions_def no_options_def
      DEFAULT_OPTIONS_def initial_state_def Let_def)

lemma execute_failed_frame:
  "data (state_after (execute_failed opts st err)) = data st
   \<and> lastUpdated (state_after (execute_failed opts st err)) = lastUpdated st
   \<and> error (state_after (execute_failed opts st err)) = fst (handleError err (errorMessage opts))
   \<and> settled (execute_failed opts st err) = Inl err
   \<and> network_calls (execute_failed opts st err) = 1"
  by (simp add: execute_failed_def Let_def)

lemma handleError_custom:
  "customMessage \<noteq> [] \<Longrightarrow> fst (handleError err customMessage) = JStr customMessage"
  by (simp add: handleError_def Let_def)

lemma execute_hit:
  "\<not> skipCache eo \<Longrightarrow> lastUpdated st = Some t \<Longrightarrow> t \<noteq> 0 \<Longrightarrow> now - t < cacheTime opts \<Longrightarrow> truthy (data st) \<Longrightarrow>
   execute opts st now now' call eo = \<lparr>state_after = st, settled = Inr (data st), network_calls = 0, toasts = []\<rparr>"
  by (simp add: execute_def)

lemma execute_miss:
  assumes "skipCache eo \<or> lastUpdated st = None \<or> lastUpdated st = Some 0
     \<or> (\<exists>t. lastUpdated st = Some t \<and> cacheTime opts \<le> now - t) \<or> \<not> truthy (data st)"
  shows "execute opts st now now' call eo =
     (case call of
        Rejects err \<Rightarrow> execute_failed opts (st\<lparr>isLoading := True, error := JNull\<rparr>) err
      | Resolves body \<Rightarrow>
          if truthy body \<and> field ''success'' body = JBool False
          then execute_failed opts (st\<lparr>isLoading := True, error := JNull\<rparr>)
                 (Error_instance (js_String
                    (js_or (field ''message'' body)
                       (js_or (field ''error'' body) (JStr (errorMessage opts))))))
          else
            (case (case transform eo of None \<Rightarrow> Inr body | Some f \<Rightarrow> f body) of
               Inl err \<Rightarrow> execute_failed opts (st\<lparr>isLoading := True, error := JNull\<rparr>) err
             | Inr v \<Rightarrow>
                 \<lparr>state_after = st\<lparr>isLoading := True, error := JNull\<rparr>\<lparr>data := v, isLoading := False, lastUpdated := Some now'\<rparr>,
                  settled = Inr body,
                  network_calls = 1,
                  toasts = (if showSuccessToast opts
                            then [Toast_success (successMessage opts)] else [])\<rparr>))"
  using assms by (auto simp: execute_def Let_def split: option.splits)

lemma execute_miss_calls:
  assumes "skipCache eo \<or> lastUpdated st = None \<or> lastUpdated st = Some 0
     \<or> (\<exists>t. lastUpdated st = Some t \<and> cacheTime opts \<le> now - t) \<or> \<not> truthy (data st)"
  shows "network_calls (execute opts st now now' call eo) = 1"
  unfolding execute_miss [OF assms]
  by (simp add: execute_failed_frame split: api_outcome.splits sum.splits)

lemma refresh_calls: "network_calls (refresh opts st now now' call) = 1"
  unfolding refresh_def by (rule execute_miss_calls) simp


text \<open>
  C7, amended. \<open>execute\<close> returns the stored data, leaves the state as it is and makes no
  network call when no refresh is forced, \<open>lastUpdated\<close> is set and non-zero,
  \<open>now - lastUpdated\<close> is under \<open>cacheTime\<close> and the stored data is truthy. In every other
  case it makes the network call. When the call resolves to a body that does not say
  \<open>success: false\<close> and the transform returns, the data is replaced by the (transformed)
  body and \<open>lastUpdated\<close> is set to the clock. When the call rejects, the transform
  throws or the body says \<open>success: false\<close>, the promise rejects, the message of
  \<open>handleError\<close> (the configured \<open>errorMessage\<close> when that is non-empty) is recorded as the
  error, and the stored data and \<open>lastUpdated\<close> are kept. \<open>refresh\<close> always makes the
  network call. The default \<open>cacheTime\<close> is 5 minutes, the mentor dashboard's 30 seconds.
\<close>

theorem execute_cache_policy:
  "(\<not> skipCache eo \<and> lastUpdated st = Some t \<and> t \<noteq> 0 \<and> now - t < cacheTime opts \<and> truthy (data st) \<longrightarrow>
      execute opts st now now' call eo
        = \<lparr>state_after = st, settled = Inr (data st), network_calls = 0, toasts = []\<rparr>)
   \<and> (skipCache eo \<or> lastUpdated st = None \<or> lastUpdated st = Some 0
        \<or> (\<exists>t. lastUpdated st = Some t \<and> cacheTime opts \<le> now - t) \<or> \<not> truthy (data st) \<longrightarrow>
      network_calls (execute opts st now now' call eo) = 1
      \<and> (call = Resolves body \<and> \<not> (truthy body \<and> field ''success'' body = JBool False)
           \<and> (case transform eo of None \<Rightarrow> Inr body | Some f \<Rightarrow> f body) = Inr v \<longrightarrow>
            settled (execute opts st now now' call eo) = Inr body
          \<and> data (state_after (execute opts st now now' call eo)) = v
          \<and> lastUpdated (state_after (execute opts st now now' call eo)) = Some now'
          \<and> error (state_after (execute opts st now now' call eo)) = JNull)
      \<and> (call = Rejects err
           \<or> call = Resolves body \<and> \<not> (truthy body \<and> field ''success'' body = JBool False)
              \<and> (case transform eo of None \<Rightarrow> Inr body | Some f \<Rightarrow> f body) = Inl err \<longrightarrow>
            settled (execute opts st now now' call eo) = Inl err
          \<and> data (state_after (execute opts st now now' call eo)) = data st
          \<and> lastUpdated (state_after (execute opts st now now' call eo)) = lastUpdated st
          \<and> error (state_after (execute opts st now now' call eo)) = fst (handleError err (errorMessage opts)))
      \<and> (call = Resolves body \<and> truthy body \<and> field ''success'' body = JBool False \<longrightarrow>
            settled (execute opts st now now' call eo)
              = Inl (Error_instance (js_String (js_or (field ''message'' body)
                       (js_or (field ''error'' body) (JStr (errorMessage opts))))))
          \<and> data (state_after (execute opts st now now' call eo)) = data st
          \<and> lastUpdated (state_after (execute opts st now now' call eo)) = lastUpdated st
          \<and> error (state_after (execute opts st now now' call eo))
              = fst (handleError (Error_instance (js_String (js_or (field ''message'' body)
                       (js_or (field ''error'' body) (JStr (errorMessage opts)))))) (errorMessage opts))))
   \<and> network_calls (refresh opts st now now' call) = 1
   \<and> (errorMessage opts \<noteq> [] \<longrightarrow> fst (handleError err (errorMessage opts)) = JStr (errorMessage opts))
   \<and> cacheTime (mergedOptions no_options) = 5 * 60 * 1000
   \<and> cacheTime (mergedOptions mentor_dashboard_options) = 30 * 1000"
proof (intro conjI impI)
  assume "\<not> skipCache eo \<and> lastUpdated st = Some t \<and> t \<noteq> 0 \<and> now - t < cacheTime opts \<and> truthy (data st)"
  then show "execute opts st now now' call eo
        = \<lparr>state_after = st, settled = Inr (data st), network_calls = 0, toasts = []\<rparr>"
    by (simp add: execute_hit)
next
  assume m: "skipCache eo \<or> lastUpdated st = None \<or> lastUpdated st = Some 0
        \<or> (\<exists>t. lastUpdated st = Some t \<and> cacheTime opts \<le> now - t) \<or> \<not> truthy (data st)"
  note E = execute_miss [OF m, of now' call]
  show "network_calls (execute opts st now now' call eo) = 1"
    by (rule execute_miss_calls [OF m])
  {
    assume a: "call = Resolves body \<and> \<not> (truthy body \<and> field ''success'' body = JBool False)
           \<and> (case transform eo of None \<Rightarrow> Inr body | Some f \<Rightarrow> f body) = Inr v"
    then have e: "execute opts st now now' call eo =
        \<lparr>state_after = st\<lparr>isLoading := True, error := JNull\<rparr>\<lparr>data := v, isLoading := False, lastUpdated := Some now'\<rparr>,
         settled = Inr body, network_calls = 1,
         toasts = (if showSuccessToast opts then [Toast_success (successMessage opts)] else [])\<rparr>"
      unfolding E by auto
    show "settled (execute opts st now now' call eo) = Inr body" unfolding e by simp
    show "data (state_after (execute opts st now now' call eo)) = v" unfolding e by simp
    show "lastUpdated (state_after (execute opts st now now' call eo)) = Some now'" unfolding e by simp
    show "error (state_after (execute opts st now now' call eo)) = JNull" unfolding e by simp
  }
  {
    assume a: "call = Rejects err
           \<or> call = Resolves body \<and> \<not> (truthy body \<and> field ''success'' body = JBool False)
              \<and> (case transform eo of None \<Rightarrow> Inr body | Some f \<Rightarrow> f body) = Inl err"
    then have e: "execute opts st now now' call eo
        = execute_failed opts (st\<lparr>isLoading := True, error := JNull\<rparr>) err"
      unfolding E by auto
    show "settled (execute opts st now now' call eo) = Inl err"
      unfolding e by (simp add: execute_failed_frame)
    show "data (state_after (execute opts st now now' call eo)) = data st"
      unfolding e by (simp add: execute_failed_frame)
    show "lastUpdated (state_after (execute opts st now now' call eo)) = lastUpdated st"
      unfolding e by (simp add: execute_failed_frame)
    show "error (state_after (execute opts st now now' call eo)) = fst (handleError err (errorMessage opts))"
      unfolding e by (simp add: execute_failed_frame)
  }
  {
    let ?err = "Error_instance (js_String (js_or (field ''message'' body)
                       (js_or (field ''error'' body) (JStr (errorMessage opts)))))"
    assume a: "call = Resolves body \<and> truthy body \<and> field ''success'' body = JBool False"
    then have e: "execute opts st now now' call eo
        = execute_failed opts (st\<lparr>isLoading := True, error := JNull\<rparr>) ?err"
      unfolding E by auto
    show "settled (execute opts st now now' call eo) = Inl ?err"
      unfolding e by (simp add: execute_failed_frame)
    show "data (state_after (execute opts st now now' call eo)) = data st"
      unfolding e by (simp add: execute_failed_frame)
    show "lastUpdated (state_after (execute opts st now now' call eo)) = lastUpdated st"
      unfolding e by (simp add: execute_failed_frame)
    show "error (state_after (execute opts st now now' call eo)) = fst (handleError ?err (errorMessage opts))"
      unfolding e by (simp add: execute_failed_frame)
  }
next
  show "network_calls (refresh opts st now now' call) = 1" by (rule refresh_calls)
next
  assume "errorMessage opts \<noteq> []"
  then show "fst (handleError err (errorMessage opts)) = JStr (errorMessage opts)"
    by (rule handleError_custom)
next
  show "cacheTime (mergedOptions no_options) = 5 * 60 * 1000"
    by (simp add: mergedOptions_def no_options_def DEFAULT_OPTIONS_def)
next
  show "cacheTime (mergedOptions mentor_dashboard_options) = 30 * 1000"
    by (simp add: mergedOptions_def mentor_dashboard_options_def)
qed


theorem execute_cache_policy_witness:
  "execute (mergedOptions no_options) cached0 2000 2001 (Resolves fresh_body) pick_data
     = \<lparr>state_after = cached0, settled = Inr (JArr [JNum 7]), network_calls = 0, toasts = []\<rparr>
   \<and> network_calls (execute (mergedOptions no_options) cached0 400000 400001 (Resolves fresh_body) pick_data) = 1
   \<and> settled (execute (mergedOptions no_options) cached0 400000 400001 (Resolves fresh_body) pick_data) = Inr fresh_body
   \<and> data (state_after (execute (mergedOptions no_options) cached0 400000 400001 (Resolves fresh_body) pick_data))
        = JArr [JNum 8, JNum 9]
   \<and> lastUpdated (state_after (execute (mergedOptions no_options) cached0 400000 400001 (Resolves fresh_body) pick_data))
        = Some 400001
   \<and> settled (execute (mergedOptions no_options) cached0 400000 400001 (Rejects (Error_instance ''Network Error'')) pick_data)
        = Inl (Error_instance ''Network Error'')
   \<and> data (state_after (execute (mergedOptions no_options) cached0 400000 400001 (Rejects (Error_instance ''Network Error'')) pick_data))
        = JArr [JNum 7]
   \<and> error (state_after (execute (mergedOptions no_options) cached0 400000 400001 (Rejects (Error_instance ''Network Error'')) pick_data))
        = JStr ''An error occurred''
   \<and> network_calls (refresh (mergedOptions no_options) cached0 2000 2001 (Resolves fresh_body)) = 1"
proof -
  let ?o = "mergedOptions no_options"
  let ?err = "Error_instance ''Network Error''"
  note T = execute_cache_policy [of pick_data cached0 1000 2000 ?o 2001 "Resolves fresh_body" fresh_body "JArr [JNum 8, JNum 9]" ?err]
  note S = execute_cache_policy [of pick_data cached0 1000 400000 ?o 400001 "Resolves fresh_body" fresh_body "JArr [JNum 8, JNum 9]" ?err]
  note F = execute_cache_policy [of pick_data cached0 1000 400000 ?o 400001 "Rejects ?err" fresh_body "JArr [JNum 8, JNum 9]" ?err]
  have ct: "cacheTime ?o = 300000"
    by (simp add: mergedOptions_def no_options_def DEFAULT_OPTIONS_def)
  have em: "errorMessage ?o = ''An error occurred''"
    by (simp add: mergedOptions_def no_options_def DEFAULT_OPTIONS_def)
  have hit: "\<not> skipCache pick_data \<and> lastUpdated cached0 = Some 1000 \<and> (1000::int) \<noteq> 0
             \<and> 2000 - 1000 < cacheTime ?o \<and> truthy (data cached0)"
    unfolding ct by (simp add: pick_data_def cached0_def)
  have miss: "skipCache pick_data \<or> lastUpdated cached0 = None \<or> lastUpdated cached0 = Some 0
        \<or> (\<exists>t. lastUpdated cached0 = Some t \<and> cacheTime ?o \<le> 400000 - t) \<or> \<not> truthy (data cached0)"
    unfolding ct by (simp add: cached0_def)
  have ok: "Resolves fresh_body = Resolves fresh_body
           \<and> \<not> (truthy fresh_body \<and> field ''success'' fresh_body = JBool False)
           \<and> (case transform pick_data of None \<Rightarrow> Inr fresh_body | Some f \<Rightarrow> f fresh_body) = Inr (JArr [JNum 8, JNum 9])"
    by (simp add: fresh_body_def pick_data_def)
  have rej: "Rejects ?err = Rejects ?err
           \<or> Rejects ?err = Resolves fresh_body \<and> \<not> (truthy fresh_body \<and> field ''success'' fresh_body = JBool False)
              \<and> (case transform pick_data of None \<Rightarrow> Inr fresh_body | Some f \<Rightarrow> f fresh_body) = Inl ?err"
    by simp
  have d: "data cached0 = JArr [JNum 7]" by (simp add: cached0_def)
  have 1: "execute ?o cached0 2000 2001 (Resolves fresh_body) pick_data
     = \<lparr>state_after = cached0, settled = Inr (data cached0), network_calls = 0, toasts = []\<rparr>"
    by (rule T [THEN conjunct1, THEN mp, OF hit])
  note M = S [THEN conjunct2, THEN conjunct1, THEN mp, OF miss]
  note N = F [THEN conjunct2, THEN conjunct1, THEN mp, OF miss]
  have 2: "network_calls (execute ?o cached0 400000 400001 (Resolves fresh_body) pick_data) = 1"
    by (rule M [THEN conjunct1])
  note M2 = M [THEN conjunct2, THEN conjunct1, THEN mp, OF ok]
  note N2 = N [THEN conjunct2, THEN conjunct2, THEN conjunct1, THEN mp, OF rej]
  have 3: "error (state_after (execute ?o cached0 400000 400001 (Rejects ?err) pick_data))
        = JStr ''An error occurred''"
    using N2 [THEN conjunct2, THEN conjunct2, THEN conjunct2]
          F [THEN conjunct2, THEN conjunct2, THEN conjunct2, THEN conjunct1]
    unfolding em by simp
  have 5: "network_calls (refresh ?o cached0 2000 2001 (Resolves fresh_body)) = 1"
    by (rule T [THEN conjunct2, THEN conjunct2, THEN conjunct1])
  show ?thesis
    using 1 2 M2 N2 [THEN conjunct1] N2 [THEN conjunct2, THEN conjunct1] 3 5 unfolding d by blast
qed

text \<open>A failure shows the error twice: the toast of \<open>handleError\<close> and the one of \<open>execute\<close>.\<close>

lemma execute_failure_toasts:
  "toasts (execute (mergedOptions no_options) cached0 400000 400001 (Rejects (Error_instance ''Network Error'')) pick_data)
     = [Toast_error (JStr ''An error occurred''), Toast_error (JStr ''An error occurred'')]"
  by (simp add: execute_def execute_failed_def handleError_def cached0_def pick_data_def
      mergedOptions_def no_options_def DEFAULT_OPTIONS_def Let_def)


section \<open>The notification poller\<close>

lemma check_pending0:
  "checkPendingIssues False pending0 432000000 = \<lparr>shown = [1], set_hasShown = True, fetched = True\<rparr>"
  "checkPendingIssues False pending0 435600000 = \<lparr>shown = [1], set_hasShown = True, fetched = True\<rparr>"
  by (simp_all add: checkPendingIssues_def pending0_def oldPendingIssues_def diffDays_def DAYS_THRESHOLD_def)

text \<open>
  C8 on the code: an issue with status Open created five days before the mount. The check
  on mount shows the notification and sets \<open>hasShownNotifications\<close>; the check of the
  first tick, an hour later, fetches and shows it again.
\<close>

theorem notification_shown_on_every_tick:
  "hasShownNotifications (IssueNotifications True [(pending0, 432000000)]) = True
   \<and> notifications (IssueNotifications True [(pending0, 432000000)]) = [1]
   \<and> notifications (IssueNotifications True [(pending0, 432000000), (pending0, 435600000)]) = [1, 1]
   \<and> fetches (IssueNotifications True [(pending0, 432000000), (pending0, 435600000)]) = 2"
  by (simp add: IssueNotifications_def poller_check_def check_pending0 Let_def)

text \<open>
  The count of days is rounded up before it is compared with the threshold: an issue is
  old one millisecond after two days, and not yet at two days.
\<close>

lemma notification_after_two_days:
  "oldPendingIssues 172800001 [\<lparr>f_status = ''Under Review'', f_createdAt = 0\<rparr>]
     = [\<lparr>f_status = ''Under Review'', f_createdAt = 0\<rparr>]
   \<and> oldPendingIssues 172800000 [\<lparr>f_status = ''Under Review'', f_createdAt = 0\<rparr>] = []"
  by (simp add: oldPendingIssues_def diffDays_def DAYS_THRESHOLD_def)

section \<open>The health endpoint\<close>

text \<open>
  C9, as stated, fails when the handler throws: with the database connected and
  responsive, a \<open>require\<close> that throws is answered 500 with status 'down'.
\<close>

theorem health_throws_counterexample:
  "health \<lparr>readyState = 1, ping_resolves = True, package_json = Inl ''Cannot find module''\<rparr>
     = Health_response 500 (Health_error ''down'' ''Cannot find module'')
   \<and> health_code (health \<lparr>readyState = 1, ping_resolves = True, package_json = Inl ''Cannot find module''\<rparr>) \<noteq> 200"
  by (simp add: health_def getMongoStatus_def pingDatabase_def)

text \<open>
  C9, amended. When nothing throws, the handler answers 200 whatever the database's
  state, with status 'up' when the connection is open and the ping succeeds and 'degraded'
  otherwise; when the handler throws it answers 500 with status 'down'.
\<close>

theorem health_status_codes:
  "(package_json env = Inr version \<longrightarrow>
      health_code (health env) = 200
    \<and> health_status (health_json (health env))
        = (if readyState env = 1 \<and> ping_resolves env then ''up'' else ''degraded''))
   \<and> (package_json env = Inl message \<longrightarrow>
      health env = Health_response 500 (Health_error ''down'' message))"
  by (simp add: health_def getMongoStatus_def pingDatabase_def Let_def)

theorem health_status_codes_witness:
  "health_code (health \<lparr>readyState = 0, ping_resolves = False, package_json = Inr ''1.0.0''\<rparr>) = 200
   \<and> health_status (health_json (health \<lparr>readyState = 0, ping_resolves = False, package_json = Inr ''1.0.0''\<rparr>))
        = ''degraded''
   \<and> health \<lparr>readyState = 1, ping_resolves = True, package_json = Inl ''Cannot find module''\<rparr>
        = Health_response 500 (Health_error ''down'' ''Cannot find module'')"
proof -
  let ?e = "\<lparr>readyState = 0, ping_resolves = False, package_json = Inr ''1.0.0''\<rparr>"
  let ?f = "\<lparr>readyState = 1, ping_resolves = True, package_json = Inl ''Cannot find module''\<rparr>"
  have p: "package_json ?e = Inr ''1.0.0''" by simp
  have q: "package_json ?f = Inl ''Cannot find module''" by simp
  from health_status_codes [of ?e "''1.0.0''", THEN conjunct1, THEN mp, OF p]
  have a: "health_code (health ?e) = 200" and b: "health_status (health_json (health ?e)) = ''degraded''"
    by simp_all
  have c: "health ?f = Health_response 500 (Health_error ''down'' ''Cannot find module'')"
    by (rule health_status_codes [of ?f _ "''Cannot find module''", THEN conjunct2, THEN mp, OF q])
  show ?thesis using a b c by blast
qed

end
